theory Spec2Isabelle
  imports Main "HOL-Library.AList"
begin

section \<open>The streaming client of \<open>src/index.ts\<close>\<close>

text \<open>
  The only code of the repository with a life cycle is the private method \<open>_stream\<close>
  of class \<open>OpenAI\<close> (lines 511--556). It builds a request body, constructs an
  \<open>EventSource\<close> (package react-native-sse, not part of the repository) and registers
  three listeners on it, for the events \<open>message\<close>, \<open>error\<close> and \<open>open\<close>.

  The embedding follows that shape. JavaScript values that travel as JSON are the
  datatype \<open>json\<close>; a thrown value is a \<open>js_exn\<close>; a caller's callback is a function that
  either returns normally (\<open>None\<close>) or throws (\<open>Some e\<close>); everything a listener does
  that the outside can see is recorded, in order, as a list of \<open>call\<close>s, and a listener
  returns that list together with the exception that leaves it, if any.
\<close>

subsection \<open>Values, exceptions, callbacks\<close>

datatype json =
    JNull
  | JBool bool
  | JNumber string
  | JString string
  | JArray "json list"
  | JObject "(string \<times> json) list"

text \<open>
  A thrown value. JavaScript can throw any value, and the \<open>catch\<close> block of the message
  listener reads \<open>error.message\<close> of what it caught. Three kinds of value differ there:
  an object whose property \<open>message\<close> reads as a string (an \<open>Error\<close>, such as the
  \<open>SyntaxError\<close> of \<open>JSON.parse\<close>); \<open>null\<close> or \<open>undefined\<close>, on which reading the property
  raises a \<open>TypeError\<close>; and any other value, on which the property is \<open>undefined\<close> and
  the template literal prints \<open>undefined\<close>. The text of the \<open>TypeError\<close> differs between
  JavaScript engines; \<open>nullish_TypeError\<close> stands for it.
\<close>

datatype js_exn = JsError string | JsNullish | JsOther

definition nullish_TypeError :: js_exn where
  "nullish_TypeError = JsError ''Cannot read properties of null''"

definition read_message :: "js_exn \<Rightarrow> js_exn + string" where
  "read_message error =
     (case error of
        JsError m \<Rightarrow> Inr m
      | JsNullish \<Rightarrow> Inl nullish_TypeError
      | JsOther \<Rightarrow> Inr ''undefined'')"

text \<open>
  What \<open>onError\<close> is called with: \<open>new Error(msg)\<close> in the \<open>catch\<close> block of the
  message listener, or the event object of the transport's \<open>error\<close> event.
\<close>

datatype 't error_arg = NewError string | TransportError 't

text \<open>
  \<open>type onEvents = { onError?: onError; onOpen?: onOpen; onDone?: onDone }\<close> (lines
  12--16): every field is optional.
\<close>

record 't onEvents =
  onError :: "('t error_arg \<Rightarrow> js_exn option) option"
  onOpen :: "(unit \<Rightarrow> js_exn option) option"
  onDone :: "(unit \<Rightarrow> js_exn option) option"

text \<open>The observable steps of a listener: a callback invoked, or \<open>eventSource.close()\<close>.\<close>

datatype ('j, 't) call = OnData 'j | OnError "'t error_arg" | OnOpen | OnDone | Close

type_synonym ('j, 't) run = "('j, 't) call list \<times> js_exn option"

text \<open>
  Statement sequencing: the second statement runs only if the first one returned
  normally; an exception leaves the block at once.
\<close>

definition then_do :: "('j, 't) run \<Rightarrow> ('j, 't) run \<Rightarrow> ('j, 't) run" where
  "then_do p q = (case snd p of None \<Rightarrow> (fst p @ fst q, snd q) | Some e \<Rightarrow> p)"

text \<open>\<open>eventSource.close()\<close>.\<close>

definition close :: "('j, 't) run" where
  "close = ([Close], None)"

text \<open>The optional calls \<open>onError?.(e)\<close>, \<open>onDone?.()\<close> and \<open>onOpen?.()\<close>.\<close>

definition call_onError :: "'t onEvents \<Rightarrow> 't error_arg \<Rightarrow> ('j, 't) run" where
  "call_onError callbacks e =
     (case onError callbacks of None \<Rightarrow> ([], None) | Some f \<Rightarrow> ([OnError e], f e))"

definition call_onDone :: "'t onEvents \<Rightarrow> ('j, 't) run" where
  "call_onDone callbacks =
     (case onDone callbacks of None \<Rightarrow> ([], None) | Some f \<Rightarrow> ([OnDone], f ()))"

definition call_onOpen :: "'t onEvents \<Rightarrow> ('j, 't) run" where
  "call_onOpen callbacks =
     (case onOpen callbacks of None \<Rightarrow> ([], None) | Some f \<Rightarrow> ([OnOpen], f ()))"

subsection \<open>The three listeners (lines 531--555)\<close>

text \<open>
  \<open>JSON.parse\<close> is the platform's; the listeners take it as the parameter \<open>parse\<close>,
  which returns the parsed value (\<open>Inr\<close>) or the exception it throws (\<open>Inl\<close>).

  The \<open>try\<close> block holds two statements, \<open>const data = JSON.parse(event.data)\<close> and
  \<open>onData(data)\<close>: an exception of either one reaches the \<open>catch\<close> block.
\<close>

definition try_block ::
  "(string \<Rightarrow> js_exn + 'j) \<Rightarrow> ('j \<Rightarrow> js_exn option) \<Rightarrow> string \<Rightarrow> ('j, 't) run" where
  "try_block parse onData d =
     (case parse d of
        Inl error \<Rightarrow> ([], Some error)
      | Inr data \<Rightarrow> ([OnData data], onData data))"

text \<open>
  The \<open>catch\<close> block: the optional call \<open>onError?.(new Error(...))\<close>, whose argument is
  built from the text \<open>JSON Parse on\<close>, \<open>event.data\<close>, the text \<open>with error\<close> and
  \<open>error.message\<close>; then \<open>eventSource.close()\<close>. An optional call whose callee is absent
  does not evaluate its arguments, so \<open>error.message\<close> is read only when \<open>onError\<close> is
  supplied; when the read throws, neither \<open>onError\<close> nor the close runs.
\<close>

definition parse_error_message :: "string \<Rightarrow> string \<Rightarrow> string" where
  "parse_error_message d m = ''JSON Parse on '' @ d @ '' with error '' @ m"

definition catch_block :: "'t onEvents \<Rightarrow> string \<Rightarrow> js_exn \<Rightarrow> ('j, 't) run" where
  "catch_block callbacks d error =
     then_do
       (case onError callbacks of
          None \<Rightarrow> ([], None)
        | Some f \<Rightarrow>
            (case read_message error of
               Inl type_error \<Rightarrow> ([], Some type_error)
             | Inr m \<Rightarrow>
                 ([OnError (NewError (parse_error_message d m))],
                  f (NewError (parse_error_message d m)))))
       close"

text \<open>
  The listener of \<open>message\<close>. \<open>event.data\<close> is the payload string of the frame, so the
  truthiness test \<open>event.data && ...\<close> is the test that it is not empty.
\<close>

definition message_listener ::
  "(string \<Rightarrow> js_exn + 'j) \<Rightarrow> ('j \<Rightarrow> js_exn option) \<Rightarrow> 't onEvents \<Rightarrow> string \<Rightarrow> ('j, 't) run"
  where
  "message_listener parse onData callbacks d =
     (if d \<noteq> [] \<and> d \<noteq> ''[DONE]'' then
        (case try_block parse onData d of
           (tr, None) \<Rightarrow> (tr, None)
         | (tr, Some error) \<Rightarrow> then_do (tr, None) (catch_block callbacks d error))
      else then_do (call_onDone callbacks) close)"

definition error_listener :: "'t onEvents \<Rightarrow> 't \<Rightarrow> ('j, 't) run" where
  "error_listener callbacks error =
     then_do (call_onError callbacks (TransportError error)) close"

definition open_listener :: "'t onEvents \<Rightarrow> ('j, 't) run" where
  "open_listener callbacks = call_onOpen callbacks"

subsection \<open>The transport and a session\<close>

text \<open>
  The transport, class \<open>EventSource\<close> of the package react-native-sse, is the
  environment of \<open>_stream\<close>: it decides which events reach the listeners, and in which
  order. The listeners keep no state, and nothing in \<open>_stream\<close> remembers that
  \<open>eventSource.close()\<close> was called: whatever event the transport delivers, before or
  after a close, goes to the listener registered for its type. An exception that
  leaves a listener surfaces in the transport's scheduling context. \<open>session\<close> is the
  sequence of calls that a sequence of delivered events produces.
\<close>

datatype 't sse_event = OpenEvent | MessageEvent string | ErrorEvent 't

definition dispatch ::
  "(string \<Rightarrow> js_exn + 'j) \<Rightarrow> ('j \<Rightarrow> js_exn option) \<Rightarrow> 't onEvents \<Rightarrow> 't sse_event \<Rightarrow> ('j, 't) run"
  where
  "dispatch parse onData callbacks ev =
     (case ev of
        OpenEvent \<Rightarrow> open_listener callbacks
      | MessageEvent d \<Rightarrow> message_listener parse onData callbacks d
      | ErrorEvent e \<Rightarrow> error_listener callbacks e)"

definition session ::
  "(string \<Rightarrow> js_exn + 'j) \<Rightarrow> ('j \<Rightarrow> js_exn option) \<Rightarrow> 't onEvents \<Rightarrow> 't sse_event list
     \<Rightarrow> ('j, 't) call list" where
  "session parse onData callbacks evs =
     concat (map (\<lambda>ev. fst (dispatch parse onData callbacks ev)) evs)"

text \<open>
  A transport that honours the close delivers no event after the event whose listener
  called \<open>eventSource.close()\<close>: in such a sequence of delivered events, an event whose
  listener closes the connection is the last one.
\<close>

fun nothing_after_close ::
  "(string \<Rightarrow> js_exn + 'j) \<Rightarrow> ('j \<Rightarrow> js_exn option) \<Rightarrow> 't onEvents \<Rightarrow> 't sse_event list
     \<Rightarrow> bool" where
  "nothing_after_close parse onData callbacks [] = True"
| "nothing_after_close parse onData callbacks (ev # evs) =
     (if Close \<in> set (fst (dispatch parse onData callbacks ev)) then evs = []
      else nothing_after_close parse onData callbacks evs)"

subsection \<open>A reference \<open>JSON.parse\<close> and \<open>JSON.stringify\<close>\<close>

text \<open>
  The listeners and the request builder are parametric in the platform's \<open>JSON.parse\<close>
  and \<open>JSON.stringify\<close>, and the theorems below hold for every such pair. To run the
  model on concrete frames, \<open>JSON_parse\<close> is a recogniser of the JSON grammar (ECMA-404:
  objects, arrays, strings with their escapes, numbers, \<open>true\<close>, \<open>false\<close>, \<open>null\<close>,
  the four whitespace characters) that returns the syntax tree, numbers and strings
  as their lexemes. The text of the \<open>SyntaxError\<close> differs between JavaScript
  engines; the two messages here stand for it. The recursion is on a fuel argument:
  every call spends one unit, \<open>parse_elements\<close> and \<open>parse_members\<close> read at least one
  character between two calls of themselves, and \<open>JSON_parse\<close> starts with twice the
  length of the text and two.
\<close>

definition is_ws :: "char \<Rightarrow> bool" where
  "is_ws c = (c = CHR '' '' \<or> c = CHR 0x09 \<or> c = CHR 0x0A \<or> c = CHR 0x0D)"

definition skip_ws :: "string \<Rightarrow> string" where
  "skip_ws = dropWhile is_ws"

definition is_digit :: "char \<Rightarrow> bool" where
  "is_digit c = (c \<in> set ''0123456789'')"

definition is_hex :: "char \<Rightarrow> bool" where
  "is_hex c = (c \<in> set ''0123456789abcdefABCDEF'')"

fun lex_string :: "string \<Rightarrow> (string \<times> string) option" where
  "lex_string [] = None"
| "lex_string (c # cs) =
     (if c = CHR 0x22 then Some ([], cs)
      else if c = CHR 0x5C then
        (case cs of
           [] \<Rightarrow> None
         | e # cs' \<Rightarrow>
             if e \<in> set (CHR 0x22 # CHR 0x5C # ''/bfnrt'') then
               map_option (apfst (\<lambda>b. c # e # b)) (lex_string cs')
             else if e = CHR ''u'' \<and> 4 \<le> length cs' \<and> list_all is_hex (take 4 cs') then
               map_option (apfst (\<lambda>b. c # e # take 4 cs' @ b)) (lex_string (drop 4 cs'))
             else None)
      else if of_char c < (0x20 :: nat) then None
      else map_option (apfst ((#) c)) (lex_string cs))"

definition lex_digits :: "string \<Rightarrow> (string \<times> string) option" where
  "lex_digits s = (if takeWhile is_digit s = [] then None
                   else Some (takeWhile is_digit s, dropWhile is_digit s))"

definition lex_int :: "string \<Rightarrow> (string \<times> string) option" where
  "lex_int s =
     (case s of
        [] \<Rightarrow> None
      | c # cs \<Rightarrow> if c = CHR ''0'' then Some ([c], cs) else lex_digits s)"

definition lex_frac :: "string \<Rightarrow> (string \<times> string) option" where
  "lex_frac s =
     (case s of
        [] \<Rightarrow> Some ([], s)
      | c # cs \<Rightarrow>
          if c = CHR ''.'' then map_option (apfst ((#) c)) (lex_digits cs) else Some ([], s))"

definition lex_sign :: "string \<Rightarrow> string \<times> string" where
  "lex_sign s =
     (case s of
        [] \<Rightarrow> ([], s)
      | c # cs \<Rightarrow> if c = CHR ''+'' \<or> c = CHR ''-'' then ([c], cs) else ([], s))"

definition lex_exp :: "string \<Rightarrow> (string \<times> string) option" where
  "lex_exp s =
     (case s of
        [] \<Rightarrow> Some ([], s)
      | c # cs \<Rightarrow>
          if c = CHR ''e'' \<or> c = CHR ''E'' then
            map_option (apfst (\<lambda>ds. c # fst (lex_sign cs) @ ds)) (lex_digits (snd (lex_sign cs)))
          else Some ([], s))"

definition lex_number :: "string \<Rightarrow> (string \<times> string) option" where
  "lex_number s =
     (let (m, s1) = (case s of [] \<Rightarrow> ([], s) | c # cs \<Rightarrow> if c = CHR ''-'' then ([c], cs) else ([], s))
      in case lex_int s1 of
           None \<Rightarrow> None
         | Some (i, s2) \<Rightarrow>
             (case lex_frac s2 of
                None \<Rightarrow> None
              | Some (f, s3) \<Rightarrow>
                  (case lex_exp s3 of
                     None \<Rightarrow> None
                   | Some (e, s4) \<Rightarrow> Some (m @ i @ f @ e, s4))))"

definition lex_word :: "string \<Rightarrow> string \<Rightarrow> string option" where
  "lex_word w s = (if take (length w) s = w then Some (drop (length w) s) else None)"

fun parse_value :: "nat \<Rightarrow> string \<Rightarrow> (json \<times> string) option"
  and parse_elements :: "nat \<Rightarrow> string \<Rightarrow> (json list \<times> string) option"
  and parse_members :: "nat \<Rightarrow> string \<Rightarrow> ((string \<times> json) list \<times> string) option"
where
  "parse_value 0 s = None"
| "parse_value (Suc n) s =
     (case skip_ws s of
        [] \<Rightarrow> None
      | c # cs \<Rightarrow>
          if c = CHR ''{'' then
            (case skip_ws cs of
               [] \<Rightarrow> None
             | c' # cs' \<Rightarrow>
                 if c' = CHR ''}'' then Some (JObject [], cs')
                 else map_option (apfst JObject) (parse_members n cs))
          else if c = CHR ''['' then
            (case skip_ws cs of
               [] \<Rightarrow> None
             | c' # cs' \<Rightarrow>
                 if c' = CHR '']'' then Some (JArray [], cs')
                 else map_option (apfst JArray) (parse_elements n cs))
          else if c = CHR 0x22 then map_option (apfst JString) (lex_string cs)
          else if c = CHR ''t'' then map_option (Pair (JBool True)) (lex_word ''true'' (c # cs))
          else if c = CHR ''f'' then map_option (Pair (JBool False)) (lex_word ''false'' (c # cs))
          else if c = CHR ''n'' then map_option (Pair JNull) (lex_word ''null'' (c # cs))
          else map_option (apfst JNumber) (lex_number (c # cs)))"
| "parse_elements 0 s = None"
| "parse_elements (Suc n) s =
     (case parse_value n s of
        None \<Rightarrow> None
      | Some (v, r) \<Rightarrow>
          (case skip_ws r of
             [] \<Rightarrow> None
           | c # r' \<Rightarrow>
               if c = CHR '']'' then Some ([v], r')
               else if c = CHR '','' then map_option (apfst ((#) v)) (parse_elements n r')
               else None))"
| "parse_members 0 s = None"
| "parse_members (Suc n) s =
     (case skip_ws s of
        [] \<Rightarrow> None
      | q # s1 \<Rightarrow>
          if q \<noteq> CHR 0x22 then None
          else
            (case lex_string s1 of
               None \<Rightarrow> None
             | Some (k, s2) \<Rightarrow>
                 (case skip_ws s2 of
                    [] \<Rightarrow> None
                  | c # s3 \<Rightarrow>
                      if c \<noteq> CHR '':'' then None
                      else
                        (case parse_value n s3 of
                           None \<Rightarrow> None
                         | Some (v, s4) \<Rightarrow>
                             (case skip_ws s4 of
                                [] \<Rightarrow> None
                              | c' # s5 \<Rightarrow>
                                  if c' = CHR ''}'' then Some ([(k, v)], s5)
                                  else if c' = CHR '','' then
                                    map_option (apfst ((#) (k, v))) (parse_members n s5)
                                  else None)))))"

definition JSON_parse :: "string \<Rightarrow> js_exn + json" where
  "JSON_parse text =
     (case parse_value (2 * length text + 2) text of
        None \<Rightarrow> Inl (JsError ''Unexpected token or end of JSON input'')
      | Some (v, r) \<Rightarrow>
          if skip_ws r = [] then Inr v
          else Inl (JsError ''Unexpected non-whitespace character after JSON''))"

text \<open>\<open>JSON.stringify\<close> on such a tree: the compact form, members in order.\<close>

fun join :: "string \<Rightarrow> string list \<Rightarrow> string" where
  "join sep [] = []"
| "join sep [x] = x"
| "join sep (x # y # ys) = x @ sep @ join sep (y # ys)"

definition quote :: "string \<Rightarrow> string" where
  "quote s = CHR 0x22 # s @ [CHR 0x22]"

fun JSON_stringify :: "json \<Rightarrow> string" where
  "JSON_stringify JNull = ''null''"
| "JSON_stringify (JBool b) = (if b then ''true'' else ''false'')"
| "JSON_stringify (JNumber n) = n"
| "JSON_stringify (JString s) = quote s"
| "JSON_stringify (JArray vs) = ''['' @ join '','' (map JSON_stringify vs) @ '']''"
| "JSON_stringify (JObject kvs) =
     ''{'' @ join '','' (map (\<lambda>kv. quote (fst kv) @ '':'' @ JSON_stringify (snd kv)) kvs) @ ''}''"

subsection \<open>The request (lines 519--529)\<close>

text \<open>
  The fields of class \<open>OpenAI\<close> that \<open>_stream\<close> reads, and the URL and options it
  passes to \<open>new EventSource\<close>.
\<close>

record client =
  apiKey :: string
  baseURL :: string

record request =
  url :: string
  http_method :: string
  headers :: "(string \<times> string) list"
  body :: string

text \<open>
  Objects live in a store and are passed by reference: the store is the list of the
  objects allocated so far, a reference is an index into it. An object is the list of
  its properties in order, each key once.
\<close>

type_synonym js_object = "(string \<times> json) list"
type_synonym heap = "js_object list"

text \<open>
  \<open>const requestBody = { ...params, stream: true }\<close>: a new object is allocated; it
  receives the properties of \<open>params\<close> in order, and then \<open>stream\<close> is set on the new
  object, which replaces the value of a property \<open>stream\<close> copied from \<open>params\<close> in its
  place and appends the property otherwise.
\<close>

definition requestBody :: "heap \<Rightarrow> nat \<Rightarrow> nat \<times> heap" where
  "requestBody h params = (length h, h @ [AList.update ''stream'' (JBool True) (h ! params)])"

text \<open>
  \<open>_stream\<close> up to the construction of the \<open>EventSource\<close> (lines 519--529): the request
  it issues, from the URL and the options it passes to the constructor, and the store
  it leaves. \<open>this\<close> is the client, \<open>params\<close> the reference to the caller's parameters.
\<close>

definition stream_request ::
  "(json \<Rightarrow> string) \<Rightarrow> client \<Rightarrow> string \<Rightarrow> nat \<Rightarrow> heap \<Rightarrow> request \<times> heap" where
  "stream_request stringify this u params h =
     (let (b, h') = requestBody h params
      in (\<lparr>url = u,
           http_method = ''POST'',
           headers = [(''Authorization'', ''Bearer '' @ apiKey this),
                      (''Content-Type'', ''application/json'')],
           body = stringify (JObject (h' ! b))\<rparr>, h'))"

text \<open>
  The two public entry points (lines 96--107 and 448--458) call \<open>_stream\<close> with these
  URLs.
\<close>

definition chat_completions_stream_url :: "client \<Rightarrow> string" where
  "chat_completions_stream_url this = baseURL this @ ''/chat/completions''"

definition threads_runs_stream_url :: "client \<Rightarrow> string \<Rightarrow> string" where
  "threads_runs_stream_url this threadId = baseURL this @ ''/threads/'' @ threadId @ ''/runs''"

subsection \<open>Vocabulary of the statements\<close>

text \<open>
  A callback returns normally on an argument when it is absent or does not throw
  there.
\<close>

definition returns_normally :: "('a \<Rightarrow> js_exn option) option \<Rightarrow> 'a \<Rightarrow> bool" where
  "returns_normally cb x = (case cb of None \<Rightarrow> True | Some f \<Rightarrow> f x = None)"

text \<open>The call of an optional callback, present in the trace when it is supplied.\<close>

definition when_supplied :: "'a option \<Rightarrow> 'c \<Rightarrow> 'c list" where
  "when_supplied cb c = (case cb of None \<Rightarrow> [] | Some f \<Rightarrow> [c])"

text \<open>The terminal callbacks are \<open>onDone\<close> and \<open>onError\<close>.\<close>

fun terminal :: "('j, 't) call \<Rightarrow> bool" where
  "terminal OnDone = True"
| "terminal (OnError e) = True"
| "terminal c = False"

fun is_OnData :: "('j, 't) call \<Rightarrow> bool" where
  "is_OnData (OnData j) = True"
| "is_OnData c = False"

text \<open>
  A trace is quiet after its terminal callback when nothing but \<open>close\<close> follows the
  first terminal callback in it.
\<close>

fun quiet_after_terminal :: "('j, 't) call list \<Rightarrow> bool" where
  "quiet_after_terminal [] = True"
| "quiet_after_terminal (c # cs) =
     (if terminal c then list_all (\<lambda>x. x = Close) cs else quiet_after_terminal cs)"

subsection \<open>Sample inputs\<close>

text \<open>
  The inputs of the closed examples: callbacks that are all supplied and return
  normally, callbacks that are all supplied and throw, a data callback that returns
  normally, one that throws an \<open>Error\<close> and one that throws \<open>null\<close>, a client, and a
  store that holds one parameter object (with \<open>stream: false\<close>, which the type
  \<open>ChatCompletionCreateParamsNonStreaming\<close> allows).
\<close>

definition sample_callbacks :: "string onEvents" where
  "sample_callbacks =
     \<lparr>onError = Some (\<lambda>e. None), onOpen = Some (\<lambda>u. None), onDone = Some (\<lambda>u. None)\<rparr>"

definition sample_onData :: "json \<Rightarrow> js_exn option" where
  "sample_onData j = None"

definition throwing_onData :: "json \<Rightarrow> js_exn option" where
  "throwing_onData j = Some (JsError ''boom'')"

definition null_throwing_onData :: "json \<Rightarrow> js_exn option" where
  "null_throwing_onData j = Some JsNullish"

definition throwing_callbacks :: "string onEvents" where
  "throwing_callbacks =
     \<lparr>onError = Some (\<lambda>e. Some (JsError ''bad onError'')),
      onOpen = Some (\<lambda>u. Some (JsError ''bad onOpen'')),
      onDone = Some (\<lambda>u. Some (JsError ''bad onDone''))\<rparr>"

definition sample_client :: client where
  "sample_client = \<lparr>apiKey = ''sk-test'', baseURL = ''https://api.openai.com/v1''\<rparr>"

definition sample_heap :: heap where
  "sample_heap = [[(''model'', JString ''gpt-4''), (''stream'', JBool False)]]"

section \<open>Properties\<close>

subsection \<open>The branches of the listeners\<close>

lemma done_then_close:
  "returns_normally (onDone callbacks) () \<Longrightarrow>
   then_do (call_onDone callbacks) close = (when_supplied (onDone callbacks) OnDone @ [Close], None)"
  by (simp add: returns_normally_def then_do_def call_onDone_def close_def when_supplied_def
      split: option.splits)

lemma done_throws:
  "onDone callbacks = Some f \<Longrightarrow> f () = Some x \<Longrightarrow>
   then_do (call_onDone callbacks) close = ([OnDone], Some x)"
  by (simp add: then_do_def call_onDone_def)

lemma error_then_close:
  "returns_normally (onError callbacks) e \<Longrightarrow>
   then_do (call_onError callbacks e) close =
     (when_supplied (onError callbacks) (OnError e) @ [Close], None)"
  by (simp add: returns_normally_def then_do_def call_onError_def close_def when_supplied_def
      split: option.splits)

lemma error_throws:
  "onError callbacks = Some f \<Longrightarrow> f e = Some x \<Longrightarrow>
   then_do (call_onError callbacks e) close = ([OnError e], Some x)"
  by (simp add: then_do_def call_onError_def)

lemma message_listener_falsy_or_done:
  "d = [] \<or> d = ''[DONE]'' \<Longrightarrow>
   message_listener parse onData callbacks d = then_do (call_onDone callbacks) close"
  by (auto simp: message_listener_def)

lemma message_listener_parse_failure:
  "d \<noteq> [] \<Longrightarrow> d \<noteq> ''[DONE]'' \<Longrightarrow> parse d = Inl err \<Longrightarrow>
   message_listener parse onData callbacks d = catch_block callbacks d err"
  by (simp add: message_listener_def try_block_def then_do_def)

lemma message_listener_parsed:
  "d \<noteq> [] \<Longrightarrow> d \<noteq> ''[DONE]'' \<Longrightarrow> parse d = Inr j \<Longrightarrow>
   message_listener parse onData callbacks d =
     (case onData j of
        None \<Rightarrow> ([OnData j], None)
      | Some e \<Rightarrow> then_do ([OnData j], None) (catch_block callbacks d e))"
  by (simp add: message_listener_def try_block_def split: option.splits)

lemma catch_block_normal:
  "read_message err = Inr m \<Longrightarrow>
   returns_normally (onError callbacks) (NewError (parse_error_message d m)) \<Longrightarrow>
   catch_block callbacks d err =
     (when_supplied (onError callbacks) (OnError (NewError (parse_error_message d m))) @ [Close],
      None)"
  by (simp add: catch_block_def returns_normally_def when_supplied_def then_do_def close_def
      split: option.splits)

lemma catch_block_throws:
  "read_message err = Inr m \<Longrightarrow> onError callbacks = Some f \<Longrightarrow>
   f (NewError (parse_error_message d m)) = Some x \<Longrightarrow>
   catch_block callbacks d err = ([OnError (NewError (parse_error_message d m))], Some x)"
  by (simp add: catch_block_def then_do_def)

lemma catch_block_nullish:
  "onError callbacks = Some f \<Longrightarrow>
   catch_block callbacks d JsNullish = ([], Some nullish_TypeError)"
  "onError callbacks = None \<Longrightarrow> catch_block callbacks d JsNullish = ([Close], None)"
  by (simp_all add: catch_block_def read_message_def then_do_def close_def)

lemma read_message_Error: "read_message (JsError m) = Inr m"
  by (simp add: read_message_def)

lemma session_Nil: "session parse onData callbacks [] = []"
  by (simp add: session_def)

lemma session_Cons:
  "session parse onData callbacks (ev # evs) =
     fst (dispatch parse onData callbacks ev) @ session parse onData callbacks evs"
  by (simp add: session_def)

lemma session_append:
  "session parse onData callbacks (pre @ evs) =
     session parse onData callbacks pre @ session parse onData callbacks evs"
  by (simp add: session_def)

text \<open>The sample callbacks return normally; the throwing ones are supplied.\<close>

lemma sample_callbacks_normal:
  "returns_normally (onDone sample_callbacks) ()"
  "returns_normally (onError sample_callbacks) e"
  "returns_normally (onOpen sample_callbacks) ()"
  by (simp_all add: returns_normally_def sample_callbacks_def)

lemma sample_callbacks_supplied:
  "when_supplied (onDone sample_callbacks) c = [c]"
  "when_supplied (onError sample_callbacks) c = [c]"
  "when_supplied (onOpen sample_callbacks) c = [c]"
  by (simp_all add: when_supplied_def sample_callbacks_def)

lemma throwing_callbacks_fields:
  "onOpen throwing_callbacks = Some (\<lambda>u. Some (JsError ''bad onOpen''))"
  "onDone throwing_callbacks = Some (\<lambda>u. Some (JsError ''bad onDone''))"
  "onError throwing_callbacks = Some (\<lambda>e. Some (JsError ''bad onError''))"
  by (simp_all add: throwing_callbacks_def)

text \<open>The reference parser on the sample frames.\<close>

lemma JSON_parse_samples:
  \<open>JSON_parse ''{"id":1}'' = Inr (JObject [(''id'', JNumber ''1'')])\<close>
  \<open>JSON_parse ''{"id":2}'' = Inr (JObject [(''id'', JNumber ''2'')])\<close>
  \<open>JSON_parse ''{bad json'' = Inl (JsError ''Unexpected token or end of JSON input'')\<close>
  \<open>JSON_parse [] = Inl (JsError ''Unexpected token or end of JSON input'')\<close>
  by code_simp+

lemma JSON_parse_rejects_whitespace:
  assumes "list_all is_ws d"
  shows "JSON_parse d = Inl (JsError ''Unexpected token or end of JSON input'')"
proof -
  have f: "2 * length d + 2 = Suc (2 * length d + 1)" by simp
  from assms have "skip_ws d = []"
    by (simp add: skip_ws_def list_all_iff)
  then show ?thesis
    unfolding JSON_parse_def f by simp
qed

subsection \<open>The sentinel and the empty payload\<close>

text \<open>
  Claim C3, as the code has it. The close stands after \<open>onDone?.()\<close> with nothing to
  guard it: when \<open>onDone\<close> throws on the sentinel frame, the exception leaves the
  listener and the transport connection is not closed.
\<close>

theorem sentinel_frame_counterexample:
  "message_listener JSON_parse sample_onData throwing_callbacks ''[DONE]'' =
     ([OnDone], Some (JsError ''bad onDone''))"
  by (simp add: message_listener_falsy_or_done
      done_throws[OF throwing_callbacks_fields(2)])

text \<open>
  Claim C3, amended. A frame whose payload is the sentinel \<open>[DONE]\<close> makes the session
  invoke \<open>onDone\<close>, when it is supplied, and then, provided \<open>onDone\<close> returned normally (or
  is not supplied), close the transport connection; when \<open>onDone\<close> throws, the exception
  leaves the listener and the connection is not closed. In every case neither \<open>onError\<close>
  nor \<open>onData\<close> is invoked for that frame.
\<close>

theorem sentinel_frame:
  fixes parse :: "string \<Rightarrow> js_exn + 'j" and callbacks :: "'t onEvents"
  shows "(returns_normally (onDone callbacks) () \<longrightarrow>
            message_listener parse onData callbacks ''[DONE]'' =
              (when_supplied (onDone callbacks) OnDone @ [Close], None))
         \<and> (\<forall>f x. onDone callbacks = Some f \<and> f () = Some x \<longrightarrow>
              message_listener parse onData callbacks ''[DONE]'' = ([OnDone], Some x))
         \<and> list_all (\<lambda>c. c = OnDone \<or> c = Close)
              (fst (message_listener parse onData callbacks ''[DONE]''))"
proof -
  have l: "list_all (\<lambda>c. c = OnDone \<or> c = Close)
              (fst (message_listener parse onData callbacks ''[DONE]''))"
    by (simp add: message_listener_falsy_or_done then_do_def call_onDone_def close_def
        split: option.splits)
  then show ?thesis
    by (simp add: message_listener_falsy_or_done done_then_close done_throws)
qed

theorem sentinel_frame_witness:
  "returns_normally (onDone sample_callbacks) () \<and>
   message_listener JSON_parse sample_onData sample_callbacks ''[DONE]'' = ([OnDone, Close], None) \<and>
   onDone throwing_callbacks = Some (\<lambda>u. Some (JsError ''bad onDone'')) \<and>
   message_listener JSON_parse null_throwing_onData throwing_callbacks ''[DONE]'' =
     ([OnDone], Some (JsError ''bad onDone''))"
proof -
  have h: "returns_normally (onDone sample_callbacks) ()"
    by (rule sample_callbacks_normal)
  from sentinel_frame[of sample_callbacks JSON_parse sample_onData] h
  have a: "message_listener JSON_parse sample_onData sample_callbacks ''[DONE]'' =
      ([OnDone, Close], None)"
    by (simp add: sample_callbacks_supplied)
  from sentinel_frame[of throwing_callbacks JSON_parse null_throwing_onData]
  have b: "message_listener JSON_parse null_throwing_onData throwing_callbacks ''[DONE]'' =
     ([OnDone], Some (JsError ''bad onDone''))"
    by (simp add: throwing_callbacks_fields)
  from h a b throwing_callbacks_fields(2) show ?thesis by blast
qed

text \<open>
  Claim C10. A frame whose payload is the empty string is handled exactly as the
  sentinel is: the test \<open>event.data && event.data !== '[DONE]'\<close> fails for both, and
  the \<open>else\<close> branch invokes \<open>onDone\<close>, when supplied, and closes the transport
  connection (\<open>onDone\<close> returning normally).
\<close>

theorem empty_frame_is_terminal:
  fixes parse :: "string \<Rightarrow> js_exn + 'j" and callbacks :: "'t onEvents"
  shows "message_listener parse onData callbacks [] =
           message_listener parse onData callbacks ''[DONE]''
         \<and> (returns_normally (onDone callbacks) () \<longrightarrow>
              message_listener parse onData callbacks [] =
                (when_supplied (onDone callbacks) OnDone @ [Close], None))"
  by (simp add: message_listener_falsy_or_done done_then_close)

theorem empty_frame_is_terminal_witness:
  "returns_normally (onDone sample_callbacks) () \<and>
   message_listener JSON_parse sample_onData sample_callbacks [] = ([OnDone, Close], None)"
proof -
  have h: "returns_normally (onDone sample_callbacks) ()"
    by (rule sample_callbacks_normal)
  from empty_frame_is_terminal[of JSON_parse sample_onData sample_callbacks] h
  have "message_listener JSON_parse sample_onData sample_callbacks [] =
          (when_supplied (onDone sample_callbacks) OnDone @ [Close], None)"
    by blast
  with h show ?thesis
    by (simp add: sample_callbacks_supplied)
qed

subsection \<open>Transport errors\<close>

text \<open>
  Claim C6, as the code has it. When \<open>onError\<close> throws, the close after it is skipped,
  and the error listener, which keeps no state, invokes \<open>onError\<close> again on the next
  error event: two calls of \<open>onError\<close> in a session that never opened, and no close.
\<close>

theorem transport_error_counterexample:
  "(error_listener throwing_callbacks ''refused'' :: (json, string) run) =
     ([OnError (TransportError ''refused'')], Some (JsError ''bad onError'')) \<and>
   session JSON_parse sample_onData throwing_callbacks
       [ErrorEvent ''refused'', ErrorEvent ''refused again''] =
     [OnError (TransportError ''refused''), OnError (TransportError ''refused again'')]"
  by (simp add: session_def dispatch_def error_listener_def
      error_throws[OF throwing_callbacks_fields(3)])

text \<open>
  Claim C6, amended. Whenever the transport delivers an error event, in any session
  state (the listener keeps no state), the session invokes \<open>onError\<close> with that error,
  when it is supplied, and then, provided \<open>onError\<close> returned normally (or is not
  supplied), closes the transport connection; when \<open>onError\<close> throws, the exception
  leaves the listener and the connection is not closed. A session in which the
  transport error is the only event delivered (it never opened, and nothing arrives
  after the close) consists, \<open>onError\<close> returning normally, of exactly one \<open>onError\<close> when
  supplied and the close: no \<open>onOpen\<close>, no \<open>onDone\<close>.
\<close>

theorem transport_error:
  fixes parse :: "string \<Rightarrow> js_exn + 'j" and callbacks :: "'t onEvents"
  shows "(returns_normally (onError callbacks) (TransportError e) \<longrightarrow>
            (error_listener callbacks e :: ('j, 't) run) =
              (when_supplied (onError callbacks) (OnError (TransportError e)) @ [Close], None))
         \<and> (\<forall>f x. onError callbacks = Some f \<and> f (TransportError e) = Some x \<longrightarrow>
              (error_listener callbacks e :: ('j, 't) run) =
                ([OnError (TransportError e)], Some x))
         \<and> session parse onData callbacks (pre @ ErrorEvent e # evs) =
              session parse onData callbacks pre
              @ fst (error_listener callbacks e :: ('j, 't) run)
              @ session parse onData callbacks evs
         \<and> (returns_normally (onError callbacks) (TransportError e) \<longrightarrow>
              session parse onData callbacks [ErrorEvent e] =
                when_supplied (onError callbacks) (OnError (TransportError e)) @ [Close])"
  by (simp add: error_listener_def error_then_close error_throws session_def dispatch_def)

theorem transport_error_witness:
  "returns_normally (onError sample_callbacks) (TransportError ''connection refused'') \<and>
   (error_listener sample_callbacks ''connection refused'' :: (json, string) run) =
     ([OnError (TransportError ''connection refused''), Close], None) \<and>
   session JSON_parse sample_onData sample_callbacks [ErrorEvent ''connection refused''] =
     [OnError (TransportError ''connection refused''), Close] \<and>
   onError throwing_callbacks = Some (\<lambda>e. Some (JsError ''bad onError'')) \<and>
   (error_listener throwing_callbacks ''connection refused'' :: (json, string) run) =
     ([OnError (TransportError ''connection refused'')], Some (JsError ''bad onError''))"
proof -
  have h: "returns_normally (onError sample_callbacks) (TransportError ''connection refused'')"
    by (rule sample_callbacks_normal)
  note t = transport_error[where callbacks = sample_callbacks and e = "''connection refused''"
      and parse = JSON_parse and onData = sample_onData and pre = "[]" and evs = "[]"]
  from t h have a: "(error_listener sample_callbacks ''connection refused'' :: (json, string) run) =
     ([OnError (TransportError ''connection refused''), Close], None)"
    by (simp add: sample_callbacks_supplied)
  from t h have b: "session JSON_parse sample_onData sample_callbacks
       [ErrorEvent ''connection refused''] =
     [OnError (TransportError ''connection refused''), Close]"
    by (simp add: sample_callbacks_supplied session_Nil)
  from transport_error[where callbacks = throwing_callbacks and e = "''connection refused''"
      and parse = JSON_parse and onData = sample_onData and pre = "[]" and evs = "[]"]
  have c: "(error_listener throwing_callbacks ''connection refused'' :: (json, string) run) =
     ([OnError (TransportError ''connection refused'')], Some (JsError ''bad onError''))"
    by (simp add: throwing_callbacks_fields)
  from h a b c throwing_callbacks_fields(3) show ?thesis by blast
qed

subsection \<open>Data frames\<close>

text \<open>
  The message listener on a frame that parses: it invokes \<open>onData\<close> with the parsed
  value, once, whatever \<open>onData\<close> does then. So every valid frame that the transport
  delivers reaches \<open>onData\<close>, in the order of delivery, and when \<open>onData\<close> returns normally
  on each frame the session does nothing else.
\<close>

lemma delivered_frames_reach_onData:
  assumes "map parse ds = map Inr js"
    and "\<forall>d \<in> set ds. d \<noteq> [] \<and> d \<noteq> ''[DONE]''"
  shows "filter is_OnData (session parse onData callbacks (map MessageEvent ds)) = map OnData js"
  using assms
proof (induction ds arbitrary: js)
  case Nil
  then show ?case by (simp add: session_def)
next
  case (Cons d ds)
  from Cons.prems(1) obtain j js' where js: "js = j # js'" and pj: "parse d = Inr j"
    and rest: "map parse ds = map Inr js'"
    by (cases js) auto
  from Cons.prems(2) have d: "d \<noteq> []" "d \<noteq> ''[DONE]''" by auto
  have m: "filter is_OnData (fst (message_listener parse onData callbacks d)) = [OnData j]"
    using d pj
    by (simp add: message_listener_parsed catch_block_def then_do_def close_def
        split: option.splits sum.splits)
  have ih: "filter is_OnData (session parse onData callbacks (map MessageEvent ds)) =
      map OnData js'"
    using Cons.IH[OF rest] Cons.prems(2) by simp
  show ?case using m ih js by (simp add: session_Cons dispatch_def)
qed

lemma normal_onData_frames:
  assumes "map parse ds = map Inr js"
    and "\<forall>d \<in> set ds. d \<noteq> [] \<and> d \<noteq> ''[DONE]''"
    and "\<forall>j \<in> set js. onData j = None"
  shows "session parse onData callbacks (map MessageEvent ds) = map OnData js"
  using assms
proof (induction ds arbitrary: js)
  case Nil
  then show ?case by (simp add: session_def)
next
  case (Cons d ds)
  from Cons.prems(1) obtain j js' where js: "js = j # js'" and pj: "parse d = Inr j"
    and rest: "map parse ds = map Inr js'"
    by (cases js) auto
  from Cons.prems(2) have d: "d \<noteq> []" "d \<noteq> ''[DONE]''" by auto
  from Cons.prems(3) js have oj: "onData j = None" by simp
  have m: "message_listener parse onData callbacks d = ([OnData j], None)"
    using d pj oj by (simp add: message_listener_parsed)
  have ih: "session parse onData callbacks (map MessageEvent ds) = map OnData js'"
    using Cons.IH[OF rest] Cons.prems(2,3) js by simp
  show ?case using m ih js by (simp add: session_Cons dispatch_def)
qed


subsection \<open>Malformed, empty and whitespace payloads\<close>

text \<open>
  Claim C2, as the code has it, at three inputs. The empty string is neither valid
  JSON nor the sentinel, and the guard \<open>event.data && ...\<close> sends it to the \<open>else\<close>
  branch: \<open>onDone\<close> is invoked, \<open>onError\<close> is not. After a malformed frame the listeners,
  which keep no state, still dispatch a frame that the transport delivers: \<open>onData\<close> is
  invoked after \<open>onError\<close> and the close. And when \<open>onError\<close> throws, the close is skipped.
\<close>

theorem malformed_frame_counterexample:
  \<open>isl (JSON_parse []) \<and> [] \<noteq> ''[DONE]'' \<and>
   message_listener JSON_parse sample_onData sample_callbacks [] = ([OnDone, Close], None) \<and>
   session JSON_parse sample_onData sample_callbacks
       [MessageEvent ''{bad json'', MessageEvent ''{"id":2}''] =
     [OnError (NewError
        ''JSON Parse on {bad json with error Unexpected token or end of JSON input''),
      Close,
      OnData (JObject [(''id'', JNumber ''2'')])] \<and>
   message_listener JSON_parse sample_onData throwing_callbacks ''{bad json'' =
     ([OnError (NewError
         ''JSON Parse on {bad json with error Unexpected token or end of JSON input'')],
      Some (JsError ''bad onError''))\<close>
  by code_simp

text \<open>
  Claim C2, amended. For a frame whose payload is not empty, is not the sentinel and
  makes the JSON parser throw (a \<open>SyntaxError\<close> with some message), the session invokes
  \<open>onError\<close>, when it is supplied, once for that frame, with an \<open>Error\<close> whose message is
  \<open>JSON Parse on\<close>, the raw payload, \<open>with error\<close> and the parser's message; it invokes no
  \<open>onData\<close> for that frame; and then, provided \<open>onError\<close> returned normally (or is not
  supplied), it closes the transport connection, while an exception of \<open>onError\<close> leaves
  the listener with the connection not closed. The listeners keep no state: the calls
  of the session after this frame are those of the events that the transport still
  delivers.
\<close>

theorem malformed_frame:
  fixes parse :: "string \<Rightarrow> js_exn + 'j" and callbacks :: "'t onEvents"
  assumes "d \<noteq> []" and "d \<noteq> ''[DONE]''" and "parse d = Inl (JsError m)"
  shows "(returns_normally (onError callbacks)
             (NewError (''JSON Parse on '' @ d @ '' with error '' @ m)) \<longrightarrow>
            message_listener parse onData callbacks d =
              (when_supplied (onError callbacks)
                 (OnError (NewError (''JSON Parse on '' @ d @ '' with error '' @ m)))
               @ [Close], None))
         \<and> (\<forall>f x. onError callbacks = Some f
                 \<and> f (NewError (''JSON Parse on '' @ d @ '' with error '' @ m)) = Some x \<longrightarrow>
              message_listener parse onData callbacks d =
                ([OnError (NewError (''JSON Parse on '' @ d @ '' with error '' @ m))], Some x))
         \<and> list_all (\<lambda>c. \<not> is_OnData c) (fst (message_listener parse onData callbacks d))
         \<and> session parse onData callbacks (pre @ MessageEvent d # evs) =
              session parse onData callbacks pre
              @ fst (message_listener parse onData callbacks d)
              @ session parse onData callbacks evs"
proof -
  have c: "message_listener parse onData callbacks d = catch_block callbacks d (JsError m)"
    using assms by (simp add: message_listener_parse_failure)
  have n: "list_all (\<lambda>c. \<not> is_OnData c) (fst (message_listener parse onData callbacks d))"
    unfolding c
    by (simp add: catch_block_def read_message_def then_do_def close_def split: option.splits)
  have s: "session parse onData callbacks (pre @ MessageEvent d # evs) =
              session parse onData callbacks pre
              @ fst (message_listener parse onData callbacks d)
              @ session parse onData callbacks evs"
    by (simp add: session_def dispatch_def)
  have k1: "(catch_block callbacks d (JsError m) :: ('j, 't) run) =
        (when_supplied (onError callbacks)
           (OnError (NewError (''JSON Parse on '' @ d @ '' with error '' @ m))) @ [Close], None)"
    if "returns_normally (onError callbacks)
          (NewError (''JSON Parse on '' @ d @ '' with error '' @ m))"
    using that catch_block_normal[OF read_message_Error, of callbacks d m]
    by (simp add: parse_error_message_def)
  have k2: "(catch_block callbacks d (JsError m) :: ('j, 't) run) =
        ([OnError (NewError (''JSON Parse on '' @ d @ '' with error '' @ m))], Some x)"
    if "onError callbacks = Some f"
      and "f (NewError (''JSON Parse on '' @ d @ '' with error '' @ m)) = Some x" for f x
    using that catch_block_throws[OF read_message_Error, of callbacks f d m x]
    by (simp add: parse_error_message_def)
  from n s k1 k2 show ?thesis
    by (simp add: c)
qed

theorem malformed_frame_witness:
  \<open>''{bad json'' \<noteq> [] \<and> ''{bad json'' \<noteq> ''[DONE]'' \<and>
   JSON_parse ''{bad json'' = Inl (JsError ''Unexpected token or end of JSON input'') \<and>
   returns_normally (onError sample_callbacks)
     (NewError ''JSON Parse on {bad json with error Unexpected token or end of JSON input'') \<and>
   message_listener JSON_parse sample_onData sample_callbacks ''{bad json'' =
     ([OnError (NewError
         ''JSON Parse on {bad json with error Unexpected token or end of JSON input''),
       Close], None) \<and>
   onError throwing_callbacks = Some (\<lambda>e. Some (JsError ''bad onError'')) \<and>
   message_listener JSON_parse sample_onData throwing_callbacks ''{bad json'' =
     ([OnError (NewError
         ''JSON Parse on {bad json with error Unexpected token or end of JSON input'')],
      Some (JsError ''bad onError''))\<close>
proof -
  have a: \<open>''{bad json'' \<noteq> []\<close> and b: \<open>''{bad json'' \<noteq> ''[DONE]''\<close> by simp_all
  have p: \<open>JSON_parse ''{bad json'' = Inl (JsError ''Unexpected token or end of JSON input'')\<close>
    by (rule JSON_parse_samples)
  have n: \<open>returns_normally (onError sample_callbacks)
     (NewError ''JSON Parse on {bad json with error Unexpected token or end of JSON input'')\<close>
    by (rule sample_callbacks_normal)
  from malformed_frame[where parse = JSON_parse and d = \<open>''{bad json''\<close>
      and onData = sample_onData and callbacks = sample_callbacks and pre = "[]" and evs = "[]",
      OF a b p] n
  have 1: \<open>message_listener JSON_parse sample_onData sample_callbacks ''{bad json'' =
     ([OnError (NewError
         ''JSON Parse on {bad json with error Unexpected token or end of JSON input''),
       Close], None)\<close>
    by (simp add: sample_callbacks_supplied)
  from malformed_frame[where parse = JSON_parse and d = \<open>''{bad json''\<close>
      and onData = sample_onData and callbacks = throwing_callbacks and pre = "[]" and evs = "[]",
      OF a b p]
  have 2: \<open>message_listener JSON_parse sample_onData throwing_callbacks ''{bad json'' =
     ([OnError (NewError
         ''JSON Parse on {bad json with error Unexpected token or end of JSON input'')],
      Some (JsError ''bad onError''))\<close>
    by (simp add: throwing_callbacks_fields)
  from a b p n 1 2 throwing_callbacks_fields(3) show ?thesis by blast
qed

text \<open>
  Claim C5, as the code has it. The message listener ignores no frame. The empty
  payload ends the session through \<open>onDone\<close>; a payload of one space passes the guard,
  is rejected by the JSON parser and ends the session through \<open>onError\<close>. And when the
  callback throws, the close after it is skipped.
\<close>

theorem padding_frame_counterexample:
  "message_listener JSON_parse sample_onData sample_callbacks [] = ([OnDone, Close], None) \<and>
   message_listener JSON_parse sample_onData sample_callbacks '' '' =
     ([OnError (NewError
         ''JSON Parse on   with error Unexpected token or end of JSON input''), Close], None) \<and>
   message_listener JSON_parse sample_onData throwing_callbacks [] =
     ([OnDone], Some (JsError ''bad onDone''))"
  by code_simp

text \<open>
  Claim C5, amended. For a frame whose payload is empty or consists of whitespace only,
  the session never invokes \<open>onData\<close>, and it does not ignore the frame. On the empty
  payload it invokes \<open>onDone\<close>, when supplied, and then, provided \<open>onDone\<close> returned
  normally (or is not supplied), closes the transport connection. On a payload of
  whitespace, on which the JSON parser throws, it invokes \<open>onError\<close>, when supplied, with
  the \<open>JSON Parse\<close> error of that payload, and then, provided \<open>onError\<close> returned normally
  (or is not supplied), closes the transport connection. An exception of the callback
  leaves the listener with the connection not closed.
\<close>

theorem padding_frame:
  fixes parse :: "string \<Rightarrow> js_exn + 'j" and callbacks :: "'t onEvents"
  assumes "list_all is_ws d" and "d \<noteq> [] \<Longrightarrow> parse d = Inl (JsError m)"
  shows "list_all (\<lambda>c. \<not> is_OnData c) (fst (message_listener parse onData callbacks d))
         \<and> (d = [] \<and> returns_normally (onDone callbacks) () \<longrightarrow>
              message_listener parse onData callbacks d =
                (when_supplied (onDone callbacks) OnDone @ [Close], None))
         \<and> (\<forall>f x. d = [] \<and> onDone callbacks = Some f \<and> f () = Some x \<longrightarrow>
              message_listener parse onData callbacks d = ([OnDone], Some x))
         \<and> (d \<noteq> [] \<and> returns_normally (onError callbacks)
                 (NewError (''JSON Parse on '' @ d @ '' with error '' @ m)) \<longrightarrow>
              message_listener parse onData callbacks d =
                (when_supplied (onError callbacks)
                   (OnError (NewError (''JSON Parse on '' @ d @ '' with error '' @ m)))
                 @ [Close], None))
         \<and> (\<forall>f x. d \<noteq> [] \<and> onError callbacks = Some f
                 \<and> f (NewError (''JSON Parse on '' @ d @ '' with error '' @ m)) = Some x \<longrightarrow>
              message_listener parse onData callbacks d =
                ([OnError (NewError (''JSON Parse on '' @ d @ '' with error '' @ m))], Some x))"
proof (cases "d = []")
  case True
  have "list_all (\<lambda>c. \<not> is_OnData c) (fst (message_listener parse onData callbacks []))"
    by (simp add: message_listener_falsy_or_done then_do_def call_onDone_def close_def
        split: option.splits)
  with True show ?thesis
    by (simp add: message_listener_falsy_or_done done_then_close done_throws)
next
  case False
  have nd: "d \<noteq> ''[DONE]''"
    using assms(1) by (auto simp: is_ws_def)
  from False assms(2) have p: "parse d = Inl (JsError m)" by simp
  have c: "message_listener parse onData callbacks d = catch_block callbacks d (JsError m)"
    using False nd p by (simp add: message_listener_parse_failure)
  have n: "list_all (\<lambda>c. \<not> is_OnData c) (fst (message_listener parse onData callbacks d))"
    unfolding c
    by (simp add: catch_block_def read_message_def then_do_def close_def split: option.splits)
  have k1: "(catch_block callbacks d (JsError m) :: ('j, 't) run) =
        (when_supplied (onError callbacks)
           (OnError (NewError (''JSON Parse on '' @ d @ '' with error '' @ m))) @ [Close], None)"
    if "returns_normally (onError callbacks)
          (NewError (''JSON Parse on '' @ d @ '' with error '' @ m))"
    using that catch_block_normal[OF read_message_Error, of callbacks d m]
    by (simp add: parse_error_message_def)
  have k2: "(catch_block callbacks d (JsError m) :: ('j, 't) run) =
        ([OnError (NewError (''JSON Parse on '' @ d @ '' with error '' @ m))], Some x)"
    if "onError callbacks = Some f"
      and "f (NewError (''JSON Parse on '' @ d @ '' with error '' @ m)) = Some x" for f x
    using that catch_block_throws[OF read_message_Error, of callbacks f d m x]
    by (simp add: parse_error_message_def)
  from n False k1 k2 show ?thesis
    by (simp add: c)
qed

theorem padding_frame_witness:
  "list_all is_ws [CHR '' '', CHR 0x0A] \<and>
   JSON_parse [CHR '' '', CHR 0x0A] = Inl (JsError ''Unexpected token or end of JSON input'') \<and>
   returns_normally (onError sample_callbacks)
     (NewError (''JSON Parse on '' @ [CHR '' '', CHR 0x0A]
        @ '' with error Unexpected token or end of JSON input'')) \<and>
   message_listener JSON_parse sample_onData sample_callbacks [CHR '' '', CHR 0x0A] =
     ([OnError (NewError (''JSON Parse on '' @ [CHR '' '', CHR 0x0A]
        @ '' with error Unexpected token or end of JSON input'')), Close], None) \<and>
   list_all is_ws [] \<and> returns_normally (onDone sample_callbacks) () \<and>
   message_listener JSON_parse sample_onData sample_callbacks [] = ([OnDone, Close], None)"
proof -
  have w: "list_all is_ws [CHR '' '', CHR 0x0A]" by (simp add: is_ws_def)
  have p: "JSON_parse [CHR '' '', CHR 0x0A] =
      Inl (JsError ''Unexpected token or end of JSON input'')"
    by (rule JSON_parse_rejects_whitespace[OF w])
  have n: "returns_normally (onError sample_callbacks)
     (NewError (''JSON Parse on '' @ [CHR '' '', CHR 0x0A]
        @ '' with error Unexpected token or end of JSON input''))"
    by (rule sample_callbacks_normal)
  from padding_frame[where parse = JSON_parse and d = "[CHR '' '', CHR 0x0A]"
      and onData = sample_onData and callbacks = sample_callbacks
      and m = "''Unexpected token or end of JSON input''", OF w p] n
  have 1: "message_listener JSON_parse sample_onData sample_callbacks [CHR '' '', CHR 0x0A] =
     ([OnError (NewError (''JSON Parse on '' @ [CHR '' '', CHR 0x0A]
        @ '' with error Unexpected token or end of JSON input'')), Close], None)"
    by (simp add: sample_callbacks_supplied)
  have w0: "list_all is_ws []" by simp
  have e: "[] \<noteq> [] \<Longrightarrow> JSON_parse [] = Inl (JsError [])" by simp
  have h: "returns_normally (onDone sample_callbacks) ()"
    by (rule sample_callbacks_normal)
  from padding_frame[where parse = JSON_parse and d = "[]"
      and onData = sample_onData and callbacks = sample_callbacks and m = "[]", OF w0 e] h
  have 2: "message_listener JSON_parse sample_onData sample_callbacks [] = ([OnDone, Close], None)"
    by (simp add: sample_callbacks_supplied)
  from w p n 1 w0 h 2 show ?thesis by blast
qed

subsection \<open>Exceptions of the callbacks\<close>

text \<open>
  Claim C8. The claim holds of \<open>onOpen\<close>, \<open>onDone\<close> and \<open>onError\<close>, which the listeners call
  outside any \<open>try\<close>, and the code breaks it for \<open>onData\<close>: \<open>onData(data)\<close> stands inside
  the \<open>try\<close> block whose \<open>catch\<close> reports a \<open>JSON Parse\<close> error. When \<open>onData\<close> throws on a
  frame that parsed, the exception is caught: the listener invokes \<open>onError\<close> with a
  \<open>JSON Parse\<close> error that names a payload which parsed, closes the connection, and no
  exception leaves the listener.
\<close>

theorem onData_exception_is_caught:
  \<open>JSON_parse ''{"id":1}'' = Inr (JObject [(''id'', JNumber ''1'')]) \<and>
   throwing_onData (JObject [(''id'', JNumber ''1'')]) = Some (JsError ''boom'') \<and>
   message_listener JSON_parse throwing_onData sample_callbacks ''{"id":1}'' =
     ([OnData (JObject [(''id'', JNumber ''1'')]),
       OnError (NewError ''JSON Parse on {"id":1} with error boom''),
       Close], None)\<close>
  by code_simp

text \<open>
  The other callbacks, and what \<open>onData\<close> throws. An exception of \<open>onOpen\<close>, \<open>onDone\<close> or
  \<open>onError\<close> leaves the listener. When \<open>onData\<close> throws \<open>null\<close> and \<open>onError\<close> is supplied,
  reading \<open>error.message\<close> in the \<open>catch\<close> block raises a \<open>TypeError\<close>, which leaves the
  listener: \<open>onError\<close> is not invoked and the connection is not closed.
\<close>

lemma other_callback_exceptions:
  fixes callbacks :: "'t onEvents"
  shows "onOpen callbacks = Some f \<Longrightarrow> f () = Some x \<Longrightarrow>
           (open_listener callbacks :: ('j, 't) run) = ([OnOpen], Some x)"
    and "onDone callbacks = Some f \<Longrightarrow> f () = Some x \<Longrightarrow>
           message_listener parse onData callbacks ''[DONE]'' = ([OnDone], Some x)"
    and "onError callbacks = Some g \<Longrightarrow> g (TransportError t) = Some x \<Longrightarrow>
           (error_listener callbacks t :: ('j, 't) run) = ([OnError (TransportError t)], Some x)"
  by (simp_all add: open_listener_def call_onOpen_def message_listener_falsy_or_done
      done_throws error_listener_def error_throws)

lemma onData_throws_null:
  \<open>message_listener JSON_parse null_throwing_onData sample_callbacks ''{"id":1}'' =
     ([OnData (JObject [(''id'', JNumber ''1'')])], Some nullish_TypeError)\<close>
  by code_simp

subsection \<open>One terminal callback per session\<close>

lemma quiet_after_terminal_count:
  "quiet_after_terminal cs \<Longrightarrow> length (filter terminal cs) \<le> 1"
proof (induction cs)
  case Nil
  then show ?case by simp
next
  case (Cons a cs)
  show ?case
  proof (cases "terminal a")
    case True
    with Cons.prems have "list_all (\<lambda>x. x = Close) cs" by simp
    then have "filter terminal cs = []" by (induction cs) auto
    with True show ?thesis by simp
  next
    case False
    with Cons show ?thesis by simp
  qed
qed

lemma quiet_after_terminal_append:
  "\<forall>c \<in> set xs. \<not> terminal c \<Longrightarrow>
   quiet_after_terminal (xs @ ys) = quiet_after_terminal ys"
  by (induction xs) auto

text \<open>One invocation of a listener invokes at most one terminal callback.\<close>

lemma catch_block_one_terminal:
  "length (filter terminal (fst (catch_block callbacks d x :: ('j, 't) run))) \<le> 1"
  by (simp add: catch_block_def then_do_def close_def split: option.splits sum.splits)

lemma dispatch_one_terminal:
  fixes parse :: "string \<Rightarrow> js_exn + 'j" and callbacks :: "'t onEvents"
  shows "length (filter terminal (fst (dispatch parse onData callbacks ev))) \<le> 1"
proof (cases ev)
  case OpenEvent
  then show ?thesis
    by (simp add: dispatch_def open_listener_def call_onOpen_def split: option.splits)
next
  case (ErrorEvent e)
  then show ?thesis
    by (simp add: dispatch_def error_listener_def call_onError_def then_do_def close_def
        split: option.splits)
next
  case (MessageEvent d)
  show ?thesis
  proof (cases "d = [] \<or> d = ''[DONE]''")
    case True
    with MessageEvent show ?thesis
      by (simp add: dispatch_def message_listener_falsy_or_done call_onDone_def then_do_def
          close_def split: option.splits)
  next
    case False
    then have d: "d \<noteq> []" "d \<noteq> ''[DONE]''" by simp_all
    note c = catch_block_one_terminal[where ?'j = 'j and ?'t = 't, of callbacks d]
    show ?thesis
    proof (cases "parse d")
      case (Inl err)
      with d MessageEvent c[of err] show ?thesis
        by (simp add: dispatch_def message_listener_parse_failure)
    next
      case (Inr j)
      with d MessageEvent show ?thesis
        using c by (simp add: dispatch_def message_listener_parsed then_do_def
            split: option.splits)
    qed
  qed
qed

text \<open>
  What one event can leave in the trace when the terminal callbacks return normally:
  nothing, \<open>onOpen\<close>, or \<open>onData\<close>; or a trace that ends with the close, after nothing,
  after a terminal callback, after \<open>onData\<close>, or after \<open>onData\<close> and \<open>onError\<close>.
\<close>

lemma catch_block_shape:
  fixes callbacks :: "'t onEvents"
  assumes "\<forall>e. returns_normally (onError callbacks) e"
  shows "fst (catch_block callbacks d x :: ('j, 't) run) = []
       \<or> fst (catch_block callbacks d x :: ('j, 't) run) = [Close]
       \<or> (\<exists>c. terminal c \<and> fst (catch_block callbacks d x :: ('j, 't) run) = [c, Close])"
proof (cases "onError callbacks")
  case None
  then show ?thesis
    by (simp add: catch_block_def then_do_def close_def)
next
  case (Some f)
  with assms have "f e = None" for e
    by (simp add: returns_normally_def)
  with Some show ?thesis
    by (simp add: catch_block_def then_do_def close_def split: sum.splits)
qed

lemma dispatch_shape:
  fixes parse :: "string \<Rightarrow> js_exn + 'j" and callbacks :: "'t onEvents"
  assumes "returns_normally (onDone callbacks) ()"
    and "\<forall>e. returns_normally (onError callbacks) e"
  shows "fst (dispatch parse onData callbacks ev) = []
       \<or> fst (dispatch parse onData callbacks ev) = [OnOpen]
       \<or> (\<exists>j. fst (dispatch parse onData callbacks ev) = [OnData j])
       \<or> (\<exists>pre. fst (dispatch parse onData callbacks ev) = pre @ [Close]
             \<and> (pre = [] \<or> (\<exists>c. terminal c \<and> pre = [c]) \<or> (\<exists>j. pre = [OnData j])
                 \<or> (\<exists>j c. terminal c \<and> pre = [OnData j, c])))"
proof (cases ev)
  case OpenEvent
  then show ?thesis
    by (simp add: dispatch_def open_listener_def call_onOpen_def split: option.splits)
next
  case (ErrorEvent e)
  from assms(2) have "returns_normally (onError callbacks) (TransportError e)" by simp
  then have "(error_listener callbacks e :: ('j, 't) run) =
      (when_supplied (onError callbacks) (OnError (TransportError e)) @ [Close], None)"
    by (simp add: error_listener_def error_then_close)
  with ErrorEvent show ?thesis
    by (simp add: dispatch_def when_supplied_def split: option.splits)
next
  case (MessageEvent d)
  show ?thesis
  proof (cases "d = [] \<or> d = ''[DONE]''")
    case True
    then have "message_listener parse onData callbacks d =
        (when_supplied (onDone callbacks) OnDone @ [Close], None)"
      using assms(1) by (simp add: message_listener_falsy_or_done done_then_close)
    with MessageEvent show ?thesis
      by (simp add: dispatch_def when_supplied_def split: option.splits)
  next
    case False
    then have d: "d \<noteq> []" "d \<noteq> ''[DONE]''" by simp_all
    note cb = catch_block_shape[where ?'j = 'j, OF assms(2), of d]
    show ?thesis
    proof (cases "parse d")
      case (Inl err)
      with d have "message_listener parse onData callbacks d = catch_block callbacks d err"
        by (simp add: message_listener_parse_failure)
      with MessageEvent cb[of err] show ?thesis
        by (auto simp: dispatch_def)
    next
      case (Inr j)
      note p = message_listener_parsed[where parse = parse and d = d and j = j
          and onData = onData and callbacks = callbacks, OF d Inr]
      show ?thesis
      proof (cases "onData j")
        case None
        with p MessageEvent show ?thesis by (simp add: dispatch_def)
      next
        case (Some x)
        with p have "fst (message_listener parse onData callbacks d) =
            OnData j # fst (catch_block callbacks d x :: ('j, 't) run)"
          by (simp add: then_do_def split: option.splits)
        with MessageEvent cb[of x] show ?thesis
          by (auto simp: dispatch_def)
      qed
    qed
  qed
qed

lemma dispatch_traces:
  fixes parse :: "string \<Rightarrow> js_exn + 'j" and callbacks :: "'t onEvents"
  assumes "returns_normally (onDone callbacks) ()"
    and "\<forall>e. returns_normally (onError callbacks) e"
  shows "(Close \<notin> set (fst (dispatch parse onData callbacks ev))
            \<and> (\<forall>c \<in> set (fst (dispatch parse onData callbacks ev)). \<not> terminal c))
         \<or> (Close \<in> set (fst (dispatch parse onData callbacks ev))
            \<and> quiet_after_terminal (fst (dispatch parse onData callbacks ev)))"
  using dispatch_shape[OF assms, of parse onData ev] by auto

text \<open>
  So a listener that invokes a terminal callback does one more thing after it: it
  closes the connection.
\<close>

lemma listener_closes_after_terminal:
  fixes parse :: "string \<Rightarrow> js_exn + 'j" and callbacks :: "'t onEvents"
  assumes "returns_normally (onDone callbacks) ()"
    and "\<forall>e. returns_normally (onError callbacks) e"
    and "fst (dispatch parse onData callbacks ev) = pre @ c # post" and "terminal c"
  shows "post = [Close]"
  using dispatch_shape[OF assms(1,2), of parse onData ev] assms(3,4)
  by (auto simp: Cons_eq_append_conv append_eq_Cons_conv)

text \<open>The session, when the transport delivers nothing after the close.\<close>

lemma session_quiet:
  assumes "returns_normally (onDone callbacks) ()"
    and "\<forall>e. returns_normally (onError callbacks) e"
    and "nothing_after_close parse onData callbacks evs"
  shows "quiet_after_terminal (session parse onData callbacks evs)"
  using assms(3)
proof (induction evs)
  case Nil
  show ?case by (simp add: session_Nil)
next
  case (Cons ev evs)
  from dispatch_traces[OF assms(1,2), of parse onData ev] show ?case
  proof
    assume a: "Close \<notin> set (fst (dispatch parse onData callbacks ev))
            \<and> (\<forall>c \<in> set (fst (dispatch parse onData callbacks ev)). \<not> terminal c)"
    with Cons.prems have "nothing_after_close parse onData callbacks evs" by simp
    with a Cons.IH show ?thesis
      by (simp add: session_Cons quiet_after_terminal_append)
  next
    assume b: "Close \<in> set (fst (dispatch parse onData callbacks ev))
            \<and> quiet_after_terminal (fst (dispatch parse onData callbacks ev))"
    with Cons.prems have "evs = []" by simp
    with b show ?thesis by (simp add: session_Cons session_Nil)
  qed
qed

lemma split_after_prefix:
  assumes "xs @ ys = pre @ c # post" and "c \<notin> set xs"
  shows "\<exists>pre'. pre = xs @ pre' \<and> ys = pre' @ c # post"
  using assms
proof (induction xs arbitrary: pre)
  case Nil
  then show ?case by simp
next
  case (Cons x xs)
  then show ?case by (cases pre) auto
qed

lemma session_closes_after_terminal:
  assumes "returns_normally (onDone callbacks) ()"
    and "\<forall>e. returns_normally (onError callbacks) e"
    and "nothing_after_close parse onData callbacks evs"
    and "session parse onData callbacks evs = pre @ c # post" and "terminal c"
  shows "post = [Close]"
  using assms(3,4)
proof (induction evs arbitrary: pre)
  case Nil
  then show ?case by (simp add: session_Nil)
next
  case (Cons ev evs)
  from dispatch_traces[OF assms(1,2), of parse onData ev] show ?case
  proof
    assume a: "Close \<notin> set (fst (dispatch parse onData callbacks ev))
            \<and> (\<forall>c \<in> set (fst (dispatch parse onData callbacks ev)). \<not> terminal c)"
    from a Cons.prems(1) have n: "nothing_after_close parse onData callbacks evs" by simp
    from Cons.prems(2) have eq: "fst (dispatch parse onData callbacks ev)
        @ session parse onData callbacks evs = pre @ c # post"
      by (simp add: session_Cons)
    from a assms(5) have notin: "c \<notin> set (fst (dispatch parse onData callbacks ev))"
      by auto
    from split_after_prefix[OF eq notin]
    obtain pre' where "session parse onData callbacks evs = pre' @ c # post"
      by auto
    with n show ?thesis by (rule Cons.IH)
  next
    assume b: "Close \<in> set (fst (dispatch parse onData callbacks ev))
            \<and> quiet_after_terminal (fst (dispatch parse onData callbacks ev))"
    with Cons.prems(1) have "evs = []" by simp
    with Cons.prems(2) have "fst (dispatch parse onData callbacks ev) = pre @ c # post"
      by (simp add: session_Cons session_Nil)
    from listener_closes_after_terminal[OF assms(1,2) this assms(5)] show ?thesis .
  qed
qed

text \<open>
  Claim C1, as the code has it. Nothing in \<open>_stream\<close> remembers that a terminal callback
  fired or that the connection was closed. When the transport delivers a frame after
  the sentinel, \<open>onData\<close> is invoked after \<open>onDone\<close> and the close. And when \<open>onDone\<close> throws,
  the close is skipped, the connection stays open, and the frames that follow give
  \<open>onData\<close> after \<open>onDone\<close> and a second \<open>onDone\<close>.
\<close>

theorem one_terminal_callback_counterexample:
  \<open>session JSON_parse sample_onData sample_callbacks
      [MessageEvent ''[DONE]'', MessageEvent ''{"id":2}''] =
     [OnDone, Close, OnData (JObject [(''id'', JNumber ''2'')])] \<and>
   session JSON_parse sample_onData throwing_callbacks
      [MessageEvent ''[DONE]'', MessageEvent ''{"id":2}'', MessageEvent ''[DONE]''] =
     [OnDone, OnData (JObject [(''id'', JNumber ''2'')]), OnDone]\<close>
  by code_simp

text \<open>
  Claim C1, amended. Every invocation of a listener invokes at most one terminal
  callback (\<open>onDone\<close> or \<open>onError\<close>). When the terminal callbacks return normally, a
  listener that invokes one does exactly one more thing after it: it closes the
  connection. The listeners keep no state, so for the session the invariant holds
  under two provisos, that the terminal callbacks return normally and that the
  transport delivers no event after the close: then at most one terminal callback is
  invoked in the session, and after it the session makes no call of \<open>onData\<close>, of
  \<open>onOpen\<close> or of a terminal callback, only the close.
\<close>

theorem one_terminal_callback:
  fixes parse :: "string \<Rightarrow> js_exn + 'j" and callbacks :: "'t onEvents"
  shows "(\<forall>ev. length (filter terminal (fst (dispatch parse onData callbacks ev))) \<le> 1)
         \<and> (returns_normally (onDone callbacks) () \<and> (\<forall>e. returns_normally (onError callbacks) e)
              \<longrightarrow> (\<forall>ev pre c post.
                     fst (dispatch parse onData callbacks ev) = pre @ c # post \<and> terminal c
                     \<longrightarrow> post = [Close]))
         \<and> (returns_normally (onDone callbacks) () \<and> (\<forall>e. returns_normally (onError callbacks) e)
              \<and> nothing_after_close parse onData callbacks evs
              \<longrightarrow> length (filter terminal (session parse onData callbacks evs)) \<le> 1
                  \<and> (\<forall>pre c post.
                        session parse onData callbacks evs = pre @ c # post \<and> terminal c
                        \<longrightarrow> post = [Close]))"
proof (intro conjI allI impI)
  fix ev
  show "length (filter terminal (fst (dispatch parse onData callbacks ev))) \<le> 1"
    by (rule dispatch_one_terminal)
next
  fix ev pre c post
  assume h: "returns_normally (onDone callbacks) () \<and> (\<forall>e. returns_normally (onError callbacks) e)"
    and "fst (dispatch parse onData callbacks ev) = pre @ c # post \<and> terminal c"
  then have "fst (dispatch parse onData callbacks ev) = pre @ c # post" and "terminal c"
    by simp_all
  then show "post = [Close]"
    by (rule listener_closes_after_terminal[OF conjunct1[OF h] conjunct2[OF h]])
next
  assume h: "returns_normally (onDone callbacks) () \<and> (\<forall>e. returns_normally (onError callbacks) e)
      \<and> nothing_after_close parse onData callbacks evs"
  then have h1: "returns_normally (onDone callbacks) ()"
    and h2: "\<forall>e. returns_normally (onError callbacks) e"
    and h3: "nothing_after_close parse onData callbacks evs"
    by simp_all
  show "length (filter terminal (session parse onData callbacks evs)) \<le> 1"
    using session_quiet[OF h1 h2 h3] by (rule quiet_after_terminal_count)
next
  fix pre c post
  assume h: "returns_normally (onDone callbacks) () \<and> (\<forall>e. returns_normally (onError callbacks) e)
      \<and> nothing_after_close parse onData callbacks evs"
    and "session parse onData callbacks evs = pre @ c # post \<and> terminal c"
  then have h1: "returns_normally (onDone callbacks) ()"
    and h2: "\<forall>e. returns_normally (onError callbacks) e"
    and h3: "nothing_after_close parse onData callbacks evs"
    and "session parse onData callbacks evs = pre @ c # post" and "terminal c"
    by simp_all
  then show "post = [Close]"
    using session_closes_after_terminal[OF h1 h2 h3] by simp
qed

theorem one_terminal_callback_witness:
  \<open>returns_normally (onDone sample_callbacks) () \<and>
   (\<forall>e. returns_normally (onError sample_callbacks) e) \<and>
   nothing_after_close JSON_parse sample_onData sample_callbacks
      [OpenEvent, MessageEvent ''{"id":1}'', MessageEvent ''[DONE]''] \<and>
   session JSON_parse sample_onData sample_callbacks
      [OpenEvent, MessageEvent ''{"id":1}'', MessageEvent ''[DONE]''] =
     [OnOpen, OnData (JObject [(''id'', JNumber ''1'')]), OnDone, Close] \<and>
   length (filter terminal (session JSON_parse sample_onData sample_callbacks
      [OpenEvent, MessageEvent ''{"id":1}'', MessageEvent ''[DONE]''])) \<le> 1\<close>
proof -
  have h1: "returns_normally (onDone sample_callbacks) ()"
    by (rule sample_callbacks_normal)
  have h2: "\<forall>e. returns_normally (onError sample_callbacks) e"
    by (simp add: sample_callbacks_normal)
  have h3: \<open>nothing_after_close JSON_parse sample_onData sample_callbacks
      [OpenEvent, MessageEvent ''{"id":1}'', MessageEvent ''[DONE]'']\<close>
    by code_simp
  have run: \<open>session JSON_parse sample_onData sample_callbacks
      [OpenEvent, MessageEvent ''{"id":1}'', MessageEvent ''[DONE]''] =
     [OnOpen, OnData (JObject [(''id'', JNumber ''1'')]), OnDone, Close]\<close>
    by code_simp
  note t = one_terminal_callback[where parse = JSON_parse and onData = sample_onData
      and callbacks = sample_callbacks
      and evs = \<open>[OpenEvent, MessageEvent ''{"id":1}'', MessageEvent ''[DONE]'']\<close>]
  from t h1 h2 h3 have n: \<open>length (filter terminal (session JSON_parse sample_onData
      sample_callbacks [OpenEvent, MessageEvent ''{"id":1}'', MessageEvent ''[DONE]''])) \<le> 1\<close>
    by blast
  from h1 h2 h3 run n show ?thesis by blast
qed

subsection \<open>The request\<close>

text \<open>
  Claim C7. The request that \<open>_stream\<close> issues is a \<open>POST\<close> to the URL it was given, with
  the headers \<open>Authorization: Bearer\<close> and the API key, and \<open>Content-Type:
  application/json\<close>, and its body is the JSON serialisation of an object that has
  \<open>stream\<close> set to \<open>true\<close> and agrees with the caller's parameters on every other key.
\<close>

theorem stream_request_post:
  assumes "params < length h"
  shows "(let req = fst (stream_request stringify this u params h);
        obj = AList.update ''stream'' (JBool True) (h ! params)
    in url req = u
       \<and> http_method req = ''POST''
       \<and> headers req = [(''Authorization'', ''Bearer '' @ apiKey this),
                         (''Content-Type'', ''application/json'')]
       \<and> body req = stringify (JObject obj)
       \<and> map_of obj ''stream'' = Some (JBool True)
       \<and> (\<forall>k. k \<noteq> ''stream'' \<longrightarrow> map_of obj k = map_of (h ! params) k))"
  using assms
  by (simp add: stream_request_def requestBody_def Let_def update_conv' nth_append)

theorem stream_request_post_witness:
  \<open>(0::nat) < length sample_heap \<and>
   fst (stream_request JSON_stringify sample_client (chat_completions_stream_url sample_client)
          0 sample_heap) =
     \<lparr>url = ''https://api.openai.com/v1/chat/completions'',
      http_method = ''POST'',
      headers = [(''Authorization'', ''Bearer sk-test''), (''Content-Type'', ''application/json'')],
      body = ''{"model":"gpt-4","stream":true}''\<rparr> \<and>
   map_of (sample_heap ! 0) ''model'' = Some (JString ''gpt-4'')\<close>
proof -
  have b: \<open>JSON_stringify (JObject (AList.update ''stream'' (JBool True) (sample_heap ! 0))) =
      ''{"model":"gpt-4","stream":true}''\<close>
    by (simp add: sample_heap_def quote_def)
  have l: "(0::nat) < length sample_heap" by (simp add: sample_heap_def)
  from stream_request_post[OF l, of JSON_stringify sample_client
      "chat_completions_stream_url sample_client"] b
  show ?thesis
    by (cases "fst (stream_request JSON_stringify sample_client
          (chat_completions_stream_url sample_client) 0 sample_heap)")
      (simp add: Let_def sample_client_def chat_completions_stream_url_def sample_heap_def)
qed

text \<open>
  Claim C9. \<open>_stream\<close> does not write to the caller's parameter object. The request body
  is a newly allocated object, the caller's parameters with \<open>stream: true\<close> laid over
  them; the body that is sent is its serialisation; and every object that was in the
  store before the call, the caller's among them, is the same after it.
\<close>

theorem caller_params_unchanged:
  assumes "params < length h"
  shows "(let h' = snd (stream_request stringify this u params h)
          in h' ! params = h ! params
             \<and> take (length h) h' = h
             \<and> length h' = Suc (length h)
             \<and> h' ! length h = AList.update ''stream'' (JBool True) (h ! params)
             \<and> body (fst (stream_request stringify this u params h)) =
                 stringify (JObject (h' ! length h)))"
  using assms by (simp add: stream_request_def requestBody_def Let_def nth_append)

theorem caller_params_unchanged_witness:
  "(0::nat) < length sample_heap \<and>
   snd (stream_request JSON_stringify sample_client (chat_completions_stream_url sample_client)
          0 sample_heap) =
     [[(''model'', JString ''gpt-4''), (''stream'', JBool False)],
      [(''model'', JString ''gpt-4''), (''stream'', JBool True)]] \<and>
   snd (stream_request JSON_stringify sample_client (chat_completions_stream_url sample_client)
          0 sample_heap) ! 0 = sample_heap ! 0"
proof -
  have l: "(0::nat) < length sample_heap" by (simp add: sample_heap_def)
  have v: "snd (stream_request JSON_stringify sample_client
          (chat_completions_stream_url sample_client) 0 sample_heap) =
     [[(''model'', JString ''gpt-4''), (''stream'', JBool False)],
      [(''model'', JString ''gpt-4''), (''stream'', JBool True)]]"
    by (simp add: stream_request_def requestBody_def sample_heap_def)
  from caller_params_unchanged[OF l, of JSON_stringify sample_client
      "chat_completions_stream_url sample_client"]
  have "snd (stream_request JSON_stringify sample_client
          (chat_completions_stream_url sample_client) 0 sample_heap) ! 0 = sample_heap ! 0"
    by (simp add: Let_def)
  with l v show ?thesis by blast
qed

subsection \<open>The entry points and a complete run\<close>

text \<open>
  The public methods \<open>chat.completions.stream\<close> and \<open>beta.threads.runs.stream\<close> pass
  their URL to \<open>_stream\<close>, which posts to it.
\<close>

lemma entry_point_urls:
  "url (fst (stream_request stringify this (chat_completions_stream_url this) params h)) =
     baseURL this @ ''/chat/completions''"
  "url (fst (stream_request stringify this (threads_runs_stream_url this threadId) params h)) =
     baseURL this @ ''/threads/'' @ threadId @ ''/runs''"
  by (simp_all add: stream_request_def requestBody_def chat_completions_stream_url_def
      threads_runs_stream_url_def)

text \<open>
  Scenario A of the specification (section 8): the connection opens, two data frames
  arrive, then the sentinel.
\<close>

lemma scenario_A:
  \<open>session JSON_parse sample_onData sample_callbacks
      [OpenEvent, MessageEvent ''{"id":1}'', MessageEvent ''{"id":2}'', MessageEvent ''[DONE]''] =
    [OnOpen, OnData (JObject [(''id'', JNumber ''1'')]), OnData (JObject [(''id'', JNumber ''2'')]),
     OnDone, Close]\<close>
  by code_simp

end
